theory Spec2Isabelle
  imports Main
begin

section \<open>The Numato Neso platform description\<close>

text \<open>
  The module \<open>amaranth_boards/numato_neso.py\<close> declares one class,
  \<open>NumatoNesoPlatform\<close>: seven class attributes (the chip's identity, the default clock and reset names, the \<open>resources\<close> and
  \<open>connectors\<close> tables), one method \<open>toolchain_prepare\<close>, and a script entry point.
  The tables are built with the constructors of the build framework (\<open>Resource\<close>,
  \<open>Subsignal\<close>, \<open>Pins\<close>, \<open>PinsN\<close>, \<open>DiffPairs\<close>, \<open>Attrs\<close>, \<open>Clock\<close>,
  \<open>Connector\<close>); they are kept here as constructors holding the arguments the source
  writes, the pin lists as the strings of the source.
\<close>

subsection \<open>Strings of pin names\<close>

text \<open>
  The framework reads a string of pin names with Python's \<open>str.split()\<close>: maximal runs of
  non-whitespace characters, in order. Whitespace is space, tab, line feed, vertical tab,
  form feed, carriage return and the four separators 0x1C to 0x1F.
\<close>

definition isspace :: "char \<Rightarrow> bool" where
  "isspace c \<longleftrightarrow> c \<in> set [CHR '' '', CHR 0x09, CHR 0x0A, CHR 0x0B, CHR 0x0C, CHR 0x0D,
                           CHR 0x1C, CHR 0x1D, CHR 0x1E, CHR 0x1F]"

text \<open>\<open>split_from w s\<close>: the words of \<open>s\<close>, where \<open>w\<close> is the word read so far.\<close>

fun split_from :: "string \<Rightarrow> string \<Rightarrow> string list" where
  "split_from w [] = (if w = [] then [] else [w])"
| "split_from w (c # cs) =
     (if isspace c then (if w = [] then split_from [] cs else w # split_from [] cs)
      else split_from (w @ [c]) cs)"

definition str_split :: "string \<Rightarrow> string list" where
  "str_split s = split_from [] s"

subsection \<open>Resources and connectors\<close>

text \<open>
  The arguments of a \<open>Resource\<close> or a \<open>Subsignal\<close>. \<open>Pins names dir\<close> and
  \<open>PinsN names dir\<close> carry one string of pin names, \<open>DiffPairs p n dir\<close> the strings of
  the positive and of the negative pins. \<open>Clock\<close> carries the frequency in Hz (the source
  writes \<open>100e6\<close>).
\<close>

datatype io =
    Pins string string
  | PinsN string string
  | DiffPairs string string string
  | Attrs "(string \<times> string) list"
  | Clock nat
  | Subsignal string "io list"

datatype resource = Resource string nat "io list"

text \<open>A connector's pins are one string of names or a dict from pin names of the connector
  to pins of the chip (an association list, in the order written).\<close>

datatype conn_io = ConnStr string | ConnDict "(string \<times> string) list"

datatype connector = Connector string nat conn_io

text \<open>
  The call \<open>SPIFlashResources(0, cs_n=..., clk=..., copi=..., cipo=..., wp_n=..., hold_n=...,
  attrs=...)\<close> whose result is spliced into the resources table. The helper itself is
  defined in \<open>amaranth_boards.resources\<close>, outside this module: the tables below take it as
  the parameter \<open>spi\<close>, a function from the arguments of the call to the resources it
  returns.
\<close>

record spi_flash_args =
  sf_number :: nat
  sf_cs_n :: string
  sf_clk :: string
  sf_copi :: string
  sf_cipo :: string
  sf_wp_n :: string
  sf_hold_n :: string
  sf_attrs :: io

type_synonym spi_flash_helper = "spi_flash_args \<Rightarrow> resource list"

record platform =
  device :: string
  package :: string
  speed :: string
  default_clk :: string
  default_rst :: string
  resources :: "resource list"
  connectors :: "connector list"

definition nl :: string where
  "nl = [CHR 0x0A]"

definition clk100 :: resource where
  "clk100 = Resource ''clk100'' 0
     [Pins ''F4'' ''i'', Clock 100000000, Attrs [(''IOSTANDARD'', ''LVCMOS33'')]]"

definition ddr3 :: resource where
  "ddr3 = Resource ''ddr3'' 0
     [Subsignal ''rst''    [PinsN ''U8'' ''o''],
      Subsignal ''clk''    [DiffPairs ''L6'' ''L5'' ''o'',
                            Attrs [(''IOSTANDARD'', ''DIFF_SSTL15''), (''IN_TERM'', ''UNTUNED_SPLIT_50'')]],
      Subsignal ''clk_en'' [Pins ''M1'' ''o''],
      Subsignal ''cs''     [PinsN ''K6'' ''o''],
      Subsignal ''we''     [PinsN ''N2'' ''o''],
      Subsignal ''ras''    [PinsN ''N4'' ''o''],
      Subsignal ''cas''    [PinsN ''L1'' ''o''],
      Subsignal ''a''      [Pins ''M4 P4 M6 T1 L3 P5 M2 N1 L4 N5 R2 K5 N6 K3'' ''o''],
      Subsignal ''ba''     [Pins ''P2 P3 R1'' ''o''],
      Subsignal ''dqs''    [DiffPairs ''U9 U2'' ''V9 V2'' ''io'',
                            Attrs [(''IOSTANDARD'', ''DIFF_SSTL15''), (''IN_TERM'', ''UNTUNED_SPLIT_50'')]],
      Subsignal ''dq''     [Pins ''R7 V6 R8 U7 V7 R6 U6 R5 T5 U3 V5 U4 V4 T4 V1 T3'' ''io'',
                            Attrs [(''IN_TERM'', ''UNTUNED_SPLIT_50'')]],
      Subsignal ''dm''     [Pins ''T6 U1'' ''o''],
      Subsignal ''odt''    [Pins ''M3'' ''o''],
      Attrs [(''IOSTANDARD'', ''SSTL15''), (''SLEW'', ''FAST'')]]"

definition spi_flash_call :: spi_flash_args where
  "spi_flash_call =
     \<lparr>sf_number = 0, sf_cs_n = ''L13'', sf_clk = ''E9'', sf_copi = ''K17'', sf_cipo = ''K18'',
      sf_wp_n = ''L14'', sf_hold_n = ''F18'',
      sf_attrs = Attrs [(''IOSTANDARD'', ''LVCMOS33'')]\<rparr>"

definition conn_p4 :: connector where
  "conn_p4 = Connector ''p'' 4 (ConnStr (nl @
     ''            A14 A13 D13 D12  A11 B11 F14 F13  B14 B13 A16 A15   A9 A10 B12 C12'' @ nl @
     ''             A8  B8 C10 C11   B9  C9  B6  B7   C5  C6  A5  A6   C7  D8  D7  E7'' @ nl @
     ''             D4  D5  D3  E3   A3  A4  B2  B3   C1  C2  A1  B1   G1  H1  E1  F1'' @ nl @
     ''             D2  E2  K1  K2   J2  J3  B4  C4   E5  E6  G2  H2   F3  F5  G3  G4'' @ nl @
     ''             H5  H6  H4  J4   F6  G6'' @ nl @
     ''            ''))"

definition conn_p5 :: connector where
  "conn_p5 = Connector ''p'' 5 (ConnStr (nl @
     ''            B16 B17 D14 C14  C16 C17 H14 G14   T8  J5 E15 E16  E17 D17 F15 F16'' @ nl @
     ''            J14 H15 H17 G17  H16 G16 K13 J13  L15 L16 L18 M18  R12 R13 K15 J15'' @ nl @
     ''            M16 M17 R18 T18  P15 R15 N15 N16  N14 P14 P17 R17  N17 P18 U16 V17'' @ nl @
     ''            U17 U18 U14 V14  V15 V16 T14 T15  R16 T16  T9 T10  T13 U13 T11 U11'' @ nl @
     ''            R10 R11 V10 V11  U12 V12 '' @ nl @
     ''            ''))"

definition conn_ftdi :: connector where
  "conn_ftdi = Connector ''ftdi'' 0 (ConnDict
     [(''d0'', ''A18''),
      (''d1'', ''B18''),
      (''d2'', ''D18''),
      (''d3'', ''E18''),
      (''d4'', ''F18''),
      (''d5'', ''G18''),
      (''d6'', ''J17''),
      (''d7'', ''J18''),
      (''txe'', ''K16''),
      (''rxf'', ''G13''),
      (''wr_n'', ''M13''),
      (''rd_n'', ''D9''),
      (''siwub'', ''J18'')])"

text \<open>The class attributes of \<open>NumatoNesoPlatform\<close>.\<close>

definition NumatoNesoPlatform :: "spi_flash_helper \<Rightarrow> platform" where
  "NumatoNesoPlatform spi =
     \<lparr>device = ''xc7a100t'',
      package = ''csg324'',
      speed = ''2'',
      default_clk = ''clk100'',
      default_rst = ''rst'',
      resources = [clk100, ddr3] @ spi spi_flash_call,
      connectors = [conn_p4, conn_p5, conn_ftdi]\<rparr>"

subsection \<open>Reading the tables\<close>

fun res_name :: "resource \<Rightarrow> string" where
  "res_name (Resource n i ios) = n"

fun res_key :: "resource \<Rightarrow> string \<times> nat" where
  "res_key (Resource n i ios) = (n, i)"

fun res_ios :: "resource \<Rightarrow> io list" where
  "res_ios (Resource n i ios) = ios"

fun conn_key :: "connector \<Rightarrow> string \<times> nat" where
  "conn_key (Connector n i c) = (n, i)"

text \<open>The physical pins an argument names, subsignals included.\<close>

fun io_pins :: "io \<Rightarrow> string list" where
  "io_pins (Pins names d) = str_split names"
| "io_pins (PinsN names d) = str_split names"
| "io_pins (DiffPairs p n d) = str_split p @ str_split n"
| "io_pins (Attrs a) = []"
| "io_pins (Clock f) = []"
| "io_pins (Subsignal s ios) = concat (map io_pins ios)"

definition resource_pins :: "resource \<Rightarrow> string list" where
  "resource_pins r = concat (map io_pins (res_ios r))"

fun connector_pins :: "connector \<Rightarrow> string list" where
  "connector_pins (Connector n i (ConnStr s)) = str_split s"
| "connector_pins (Connector n i (ConnDict d)) = map snd d"

definition platform_pins :: "platform \<Rightarrow> string list" where
  "platform_pins p =
     concat (map resource_pins (resources p)) @ concat (map connector_pins (connectors p))"

text \<open>The arguments of the subsignal of a resource with a given name, if there is one.\<close>

fun find_subsignal :: "string \<Rightarrow> io list \<Rightarrow> io list option" where
  "find_subsignal s [] = None"
| "find_subsignal s (Subsignal t ios # rest) =
     (if s = t then Some ios else find_subsignal s rest)"
| "find_subsignal s (_ # rest) = find_subsignal s rest"

text \<open>The width of a subsignal: the number of its pins, or of its pairs when differential.\<close>

fun io_width :: "io \<Rightarrow> nat" where
  "io_width (Pins names d) = length (str_split names)"
| "io_width (PinsN names d) = length (str_split names)"
| "io_width (DiffPairs p n d) = length (str_split p)"
| "io_width _ = 0"

definition subsignal_width :: "resource \<Rightarrow> string \<Rightarrow> nat option" where
  "subsignal_width r s = map_option (\<lambda>ios. sum_list (map io_width ios)) (find_subsignal s (res_ios r))"

subsection \<open>Keyword arguments and string formatting\<close>

text \<open>
  The values of keyword arguments: the override texts are strings, a flag is a bool, and
  any other object a caller passes is opaque.
\<close>

datatype 'a pyval = Str string | Bool bool | Obj 'a

text \<open>A dict of keyword arguments, in insertion order; the keys of a dict are distinct.\<close>

type_synonym 'a kwargs = "(string \<times> 'a pyval) list"

datatype error = TypeError string | ValueError | KeyError string

text \<open>
  \<open>template.format(**kw)\<close> for templates whose replacement fields are plain names:
  \<open>{{\<close> and \<open>}}\<close> stand for one brace, \<open>{field}\<close> for the value of \<open>field\<close>, a
  lone \<open>}\<close> or an unclosed field is a ValueError, an unknown field a KeyError. The first
  argument is the field name read so far, \<open>None\<close> outside a field. The substituted value is
  copied, never scanned.
\<close>

fun format_from :: "string option \<Rightarrow> (string \<times> string) list \<Rightarrow> string \<Rightarrow> error + string" where
  "format_from None kw [] = Inr []"
| "format_from (Some f) kw [] = Inl ValueError"
| "format_from None kw (c # cs) =
     (if c = CHR ''{'' then
        (case cs of
           d # ds \<Rightarrow>
             (if d = CHR ''{'' then
                (case format_from None kw ds of Inl e \<Rightarrow> Inl e | Inr r \<Rightarrow> Inr (c # r))
              else format_from (Some []) kw cs)
         | [] \<Rightarrow> format_from (Some []) kw cs)
      else if c = CHR ''}'' then
        (case cs of
           d # ds \<Rightarrow>
             (if d = CHR ''}'' then
                (case format_from None kw ds of Inl e \<Rightarrow> Inl e | Inr r \<Rightarrow> Inr (c # r))
              else Inl ValueError)
         | [] \<Rightarrow> Inl ValueError)
      else (case format_from None kw cs of Inl e \<Rightarrow> Inl e | Inr r \<Rightarrow> Inr (c # r)))"
| "format_from (Some f) kw (c # cs) =
     (if c = CHR ''}'' then
        (case map_of kw f of
           None \<Rightarrow> Inl (KeyError f)
         | Some v \<Rightarrow>
             (case format_from None kw cs of Inl e \<Rightarrow> Inl e | Inr r \<Rightarrow> Inr (v @ r)))
      else format_from (Some (f @ [c])) kw cs)"

definition format :: "string \<Rightarrow> (string \<times> string) list \<Rightarrow> error + string" where
  "format template kw = format_from None kw template"

text \<open>
  A call \<open>f(..., **d1, **d2)\<close> collects the keyword arguments into one dict: the entries of
  \<open>d1\<close>, then those of \<open>d2\<close> in order; a key that is already there raises
  \<open>TypeError: got multiple values for keyword argument\<close>, and the call is not made.
\<close>

fun kwargs_update :: "'a kwargs \<Rightarrow> 'a kwargs \<Rightarrow> error + 'a kwargs" where
  "kwargs_update acc [] = Inr acc"
| "kwargs_update acc ((k, v) # rest) =
     (if k \<in> set (map fst acc) then Inl (TypeError k)
      else kwargs_update (acc @ [(k, v)]) rest)"

subsection \<open>The method \<open>toolchain_prepare\<close>\<close>

text \<open>The value of \<open>"script_after_bitstream"\<close>: two adjacent literals, joined, then formatted.\<close>

definition script_after_bitstream :: "string \<Rightarrow> error + string" where
  \<open>script_after_bitstream name =
     format (''write_cfgmem -force -format bin -interface spix4 -size 16 '' @
             ''-loadbit "up 0x0 {name}.bit" -file {name}.bin'') [(''name'', name)]\<close>

text \<open>The dict \<open>overrides\<close> the method builds.\<close>

definition overrides :: "string \<Rightarrow> error + 'a kwargs" where
  "overrides name =
     (case script_after_bitstream name of
        Inl e \<Rightarrow> Inl e
      | Inr after \<Rightarrow> Inr
         [(''script_before_bitstream'',
             Str ''set_property BITSTREAM.CONFIG.SPI_BUSWIDTH 4 [current_design]''),
          (''script_after_bitstream'', Str after),
          (''add_constraints'',
             Str (nl @
               ''                set_property CFGBVS VCCO [current_design]'' @ nl @
               ''                set_property CONFIG_VOLTAGE 3.3 [current_design]'' @ nl @
               ''                ''))])"

text \<open>The keyword arguments of the call \<open>super().toolchain_prepare(fragment, name,
  **overrides, **kwargs)\<close>.\<close>

definition super_kwargs :: "string \<Rightarrow> 'a kwargs \<Rightarrow> error + 'a kwargs" where
  "super_kwargs name kwargs =
     (case overrides name of Inl e \<Rightarrow> Inl e | Inr ov \<Rightarrow> kwargs_update ov kwargs)"

text \<open>
  The inherited \<open>toolchain_prepare\<close> belongs to the build framework: it is the parameter
  \<open>super_prepare\<close>, a function of the platform and the arguments that returns its result
  and the platform it leaves behind. The method returns what the inherited one returns;
  an exception raised before the call leaves the platform as it was.
\<close>

type_synonym ('a, 'f, 'r) prepare = "platform \<Rightarrow> 'f \<Rightarrow> string \<Rightarrow> 'a kwargs \<Rightarrow> 'r \<times> platform"

definition toolchain_prepare ::
  "('a, 'f, 'r) prepare \<Rightarrow> platform \<Rightarrow> 'f \<Rightarrow> string \<Rightarrow> 'a kwargs \<Rightarrow> (error + 'r) \<times> platform" where
  "toolchain_prepare super_prepare self fragment name kwargs =
     (case super_kwargs name kwargs of
        Inl e \<Rightarrow> (Inl e, self)
      | Inr kw \<Rightarrow> apfst Inr (super_prepare self fragment name kw))"

subsection \<open>The script entry point\<close>

text \<open>
  \<open>if __name__ == "__main__": NumatoNesoPlatform().build(Blinky())\<close>: the call of the
  framework's \<open>build\<close> that the module makes, if any, with its keyword arguments.
\<close>

datatype design = Blinky

record 'a build_call =
  build_platform :: platform
  build_elaboratable :: design
  build_kwargs :: "'a kwargs"

definition module_main :: "spi_flash_helper \<Rightarrow> string \<Rightarrow> 'a build_call option" where
  "module_main spi dunder_name =
     (if dunder_name = ''__main__'' then
        Some \<lparr>build_platform = NumatoNesoPlatform spi, build_elaboratable = Blinky,
              build_kwargs = []\<rparr>
      else None)"

text \<open>Whether a call of \<open>build\<close> was made with \<open>do_program=True\<close>.\<close>

definition do_program_set :: "'a build_call option \<Rightarrow> bool" where
  "do_program_set call =
     (case call of
        None \<Rightarrow> False
      | Some c \<Rightarrow> map_of (build_kwargs c) ''do_program'' = Some (Bool True))"

subsection \<open>Stand-ins for the two parameters\<close>

text \<open>
  Concrete values for the two parameters, to evaluate the definitions at: a helper that
  returns one resource \<open>spi_flash\<close> with the six signals of the call, and an inherited step
  that returns its arguments and leaves the platform alone.
\<close>

definition spi_flash_one :: spi_flash_helper where
  "spi_flash_one a =
     [Resource ''spi_flash'' (sf_number a)
        [sf_attrs a,
         Subsignal ''cs''   [PinsN (sf_cs_n a) ''o''],
         Subsignal ''clk''  [Pins (sf_clk a) ''o''],
         Subsignal ''copi'' [Pins (sf_copi a) ''o''],
         Subsignal ''cipo'' [Pins (sf_cipo a) ''i''],
         Subsignal ''wp''   [PinsN (sf_wp_n a) ''o''],
         Subsignal ''hold'' [PinsN (sf_hold_n a) ''o'']]]"

definition super_echo :: "('a, 'f, 'f \<times> string \<times> 'a kwargs) prepare" where
  "super_echo self fragment name kw = ((fragment, name, kw), self)"

section \<open>Properties\<close>

subsection \<open>Shared lemmas\<close>

lemma script_after_bitstream_eq:
  \<open>script_after_bitstream name =
     Inr (''write_cfgmem -force -format bin -interface spix4 -size 16 -loadbit "up 0x0 '' @ name @
          ''.bit" -file '' @ name @ ''.bin'')\<close>
  by (simp add: script_after_bitstream_def format_def)

lemma kwargs_update_Inr:
  "kwargs_update acc kw = Inr m \<Longrightarrow> m = acc @ kw \<and> set (map fst acc) \<inter> set (map fst kw) = {}"
proof (induction kw arbitrary: acc)
  case Nil
  then show ?case by simp
next
  case (Cons a kw)
  obtain k v where a: "a = (k, v)" by (cases a)
  from Cons.prems a have notin: "k \<notin> set (map fst acc)" and
    rest: "kwargs_update (acc @ [(k, v)]) kw = Inr m"
    by (auto split: if_splits)
  from Cons.IH [OF rest] have "m = (acc @ [(k, v)]) @ kw"
    and "set (map fst (acc @ [(k, v)])) \<inter> set (map fst kw) = {}" by simp_all
  with notin a show ?case by auto
qed

lemma kwargs_update_clash:
  "k \<in> set (map fst acc) \<Longrightarrow> k \<in> set (map fst kw) \<Longrightarrow>
   \<exists>k'. k' \<in> set (map fst kw) \<and> kwargs_update acc kw = Inl (TypeError k')"
proof (induction kw arbitrary: acc)
  case Nil
  then show ?case by simp
next
  case (Cons a kw)
  obtain j v where a: "a = (j, v)" by (cases a)
  show ?case
  proof (cases "j \<in> set (map fst acc)")
    case True
    with a show ?thesis by auto
  next
    case False
    with Cons.prems a have "k \<in> set (map fst kw)" by auto
    moreover from Cons.prems have "k \<in> set (map fst (acc @ [(j, v)]))" by simp
    ultimately obtain k' where "k' \<in> set (map fst kw)"
      "kwargs_update (acc @ [(j, v)]) kw = Inl (TypeError k')"
      using Cons.IH by blast
    with False a show ?thesis by auto
  qed
qed


lemma overrides_eq:
  \<open>overrides name = Inr
     [(''script_before_bitstream'',
         Str ''set_property BITSTREAM.CONFIG.SPI_BUSWIDTH 4 [current_design]''),
      (''script_after_bitstream'',
         Str (''write_cfgmem -force -format bin -interface spix4 -size 16 -loadbit "up 0x0 '' @
              name @ ''.bit" -file '' @ name @ ''.bin'')),
      (''add_constraints'',
         Str (nl @
           ''                set_property CFGBVS VCCO [current_design]'' @ nl @
           ''                set_property CONFIG_VOLTAGE 3.3 [current_design]'' @ nl @
           ''                ''))]\<close>
  unfolding overrides_def script_after_bitstream_eq by simp

lemma overrides_keys:
  "overrides name = Inr ov \<Longrightarrow>
   map fst ov = [''script_before_bitstream'', ''script_after_bitstream'', ''add_constraints'']"
  unfolding overrides_eq by auto

lemma append_twice_inj:
  assumes "p @ n1 @ q @ n1 @ r = p @ n2 @ q @ n2 @ (r :: string)"
  shows "n1 = n2"
proof -
  from assms have eq: "n1 @ q @ n1 @ r = n2 @ q @ n2 @ r" by simp
  have "length (n1 @ q @ n1 @ r) = length (n2 @ q @ n2 @ r)"
    using eq by (rule arg_cong)
  then have "length n1 = length n2"
    by (simp only: length_append)
  with eq show ?thesis by simp
qed

lemma script_after_bitstream_inj:
  "script_after_bitstream n1 = script_after_bitstream n2 \<longleftrightarrow> n1 = n2"
proof
  assume "script_after_bitstream n1 = script_after_bitstream n2"
  then show "n1 = n2"
    unfolding script_after_bitstream_eq sum.inject by (rule append_twice_inj)
next
  assume "n1 = n2"
  then show "script_after_bitstream n1 = script_after_bitstream n2" by simp
qed

lemma overrides_lookup:
  assumes "overrides name = Inr ov"
  shows "map_of (ov @ kw) ''script_before_bitstream'' =
           Some (Str ''set_property BITSTREAM.CONFIG.SPI_BUSWIDTH 4 [current_design]'')"
    and "\<exists>a. script_after_bitstream name = Inr a \<and>
           map_of (ov @ kw) ''script_after_bitstream'' = Some (Str a)"
    and "map_of (ov @ kw) ''add_constraints'' =
           Some (Str (nl @
             ''                set_property CFGBVS VCCO [current_design]'' @ nl @
             ''                set_property CONFIG_VOLTAGE 3.3 [current_design]'' @ nl @
             ''                ''))"
  using assms by (auto simp: overrides_def split: sum.splits)

subsection \<open>The toolchain overrides\<close>

text \<open>
  C1. Called with no keyword arguments of the caller's, for every design name (and every
  platform, fragment and inherited step), \<open>toolchain_prepare\<close> calls the inherited step
  with exactly three keyword arguments, in this order: \<open>script_before_bitstream\<close> with
  the SPI bus width 4 property, \<open>script_after_bitstream\<close> with the \<open>write_cfgmem\<close>
  command in which the design name is substituted, and \<open>add_constraints\<close> with the
  source's literal block holding the two voltage lines (CFGBVS VCCO and \<open>CONFIG_VOLTAGE\<close>
  3.3), each after a line break and sixteen spaces. Its result is the inherited step's.
\<close>

theorem toolchain_prepare_no_kwargs:
  \<open>toolchain_prepare super_prepare self fragment name [] =
     apfst Inr (super_prepare self fragment name
       [(''script_before_bitstream'',
           Str ''set_property BITSTREAM.CONFIG.SPI_BUSWIDTH 4 [current_design]''),
        (''script_after_bitstream'',
           Str (''write_cfgmem -force -format bin -interface spix4 -size 16 -loadbit "up 0x0 '' @
                name @ ''.bit" -file '' @ name @ ''.bin'')),
        (''add_constraints'',
           Str (nl @
             ''                set_property CFGBVS VCCO [current_design]'' @ nl @
             ''                set_property CONFIG_VOLTAGE 3.3 [current_design]'' @ nl @
             ''                ''))])\<close>
  unfolding toolchain_prepare_def super_kwargs_def overrides_eq by simp

text \<open>
  C5. For every design name \<open>n\<close>, formatting the template succeeds, and the entry
  \<open>script_after_bitstream\<close> of the overrides is the \<open>write_cfgmem\<close> command with
  \<open>n.bit\<close> as the bitstream loaded upwards from address 0x0 and \<open>n.bin\<close> as the file
  written, over the interface spix4.
\<close>

theorem script_after_bitstream_text:
  \<open>script_after_bitstream name =
     Inr (''write_cfgmem -force -format bin -interface spix4 -size 16 -loadbit "up 0x0 '' @ name @
          ''.bit" -file '' @ name @ ''.bin'') \<and>
   (\<exists>ov :: 'a kwargs. overrides name = Inr ov \<and>
      map_of ov ''script_after_bitstream'' =
        Some (Str (''write_cfgmem -force -format bin -interface spix4 -size 16 -loadbit "up 0x0 '' @
                   name @ ''.bit" -file '' @ name @ ''.bin'')))\<close>
  unfolding script_after_bitstream_eq overrides_eq by simp

text \<open>
  C9. For any two calls that reach the inherited step, whatever their design names and
  the caller's keyword arguments (the fragment takes no part in building them), the texts
  passed for \<open>script_before_bitstream\<close> and for \<open>add_constraints\<close> are the same fixed
  texts, and the texts passed for \<open>script_after_bitstream\<close> are equal exactly when the
  design names are.
\<close>

theorem fixed_override_texts:
  assumes "super_kwargs name1 kwargs1 = Inr kw1" and "super_kwargs name2 kwargs2 = Inr kw2"
  shows "map_of kw1 ''script_before_bitstream'' =
           Some (Str ''set_property BITSTREAM.CONFIG.SPI_BUSWIDTH 4 [current_design]'') \<and>
         map_of kw2 ''script_before_bitstream'' = map_of kw1 ''script_before_bitstream'' \<and>
         map_of kw1 ''add_constraints'' =
           Some (Str (nl @
             ''                set_property CFGBVS VCCO [current_design]'' @ nl @
             ''                set_property CONFIG_VOLTAGE 3.3 [current_design]'' @ nl @
             ''                '')) \<and>
         map_of kw2 ''add_constraints'' = map_of kw1 ''add_constraints'' \<and>
         (map_of kw1 ''script_after_bitstream'' = map_of kw2 ''script_after_bitstream''
            \<longleftrightarrow> name1 = name2)"
proof -
  obtain ov1 :: "'a kwargs" where ov1: "overrides name1 = Inr ov1" using overrides_eq by blast
  obtain ov2 :: "'a kwargs" where ov2: "overrides name2 = Inr ov2" using overrides_eq by blast
  from assms ov1 ov2 have kw: "kw1 = ov1 @ kwargs1" "kw2 = ov2 @ kwargs2"
    by (auto simp: super_kwargs_def dest: kwargs_update_Inr)
  obtain a1 where a1: "script_after_bitstream name1 = Inr a1"
    "map_of kw1 ''script_after_bitstream'' = Some (Str a1)"
    using overrides_lookup(2) [OF ov1] kw by blast
  obtain a2 where a2: "script_after_bitstream name2 = Inr a2"
    "map_of kw2 ''script_after_bitstream'' = Some (Str a2)"
    using overrides_lookup(2) [OF ov2] kw by blast
  have "(map_of kw1 ''script_after_bitstream'' = map_of kw2 ''script_after_bitstream'')
          \<longleftrightarrow> script_after_bitstream name1 = script_after_bitstream name2"
    using a1 a2 by simp
  then have after: "(map_of kw1 ''script_after_bitstream'' = map_of kw2 ''script_after_bitstream'')
          \<longleftrightarrow> name1 = name2"
    by (simp only: script_after_bitstream_inj)
  show ?thesis
    using overrides_lookup(1,3) [OF ov1, of kwargs1] overrides_lookup(1,3) [OF ov2, of kwargs2]
      after
    unfolding kw by (simp only: simp_thms)
qed

theorem fixed_override_texts_witness:
  \<open>super_kwargs ''top'' [] =
     Inr [(''script_before_bitstream'',
             Str ''set_property BITSTREAM.CONFIG.SPI_BUSWIDTH 4 [current_design]''),
          (''script_after_bitstream'',
             Str ''write_cfgmem -force -format bin -interface spix4 -size 16 -loadbit "up 0x0 top.bit" -file top.bin''),
          (''add_constraints'',
             Str (nl @
               ''                set_property CFGBVS VCCO [current_design]'' @ nl @
               ''                set_property CONFIG_VOLTAGE 3.3 [current_design]'' @ nl @
               ''                '') :: unit pyval)] \<and>
   super_kwargs ''blinky'' [(''strategy'', Str ''fast'')] =
     Inr [(''script_before_bitstream'',
             Str ''set_property BITSTREAM.CONFIG.SPI_BUSWIDTH 4 [current_design]''),
          (''script_after_bitstream'',
             Str ''write_cfgmem -force -format bin -interface spix4 -size 16 -loadbit "up 0x0 blinky.bit" -file blinky.bin''),
          (''add_constraints'',
             Str (nl @
               ''                set_property CFGBVS VCCO [current_design]'' @ nl @
               ''                set_property CONFIG_VOLTAGE 3.3 [current_design]'' @ nl @
               ''                '')),
          (''strategy'', Str ''fast'' :: unit pyval)] \<and>
   map_of (projr (super_kwargs ''top'' [] :: error + unit kwargs)) ''script_before_bitstream'' =
     map_of (projr (super_kwargs ''blinky'' [(''strategy'', Str ''fast'' :: unit pyval)]))
       ''script_before_bitstream'' \<and>
   map_of (projr (super_kwargs ''top'' [] :: error + unit kwargs)) ''add_constraints'' =
     map_of (projr (super_kwargs ''blinky'' [(''strategy'', Str ''fast'' :: unit pyval)]))
       ''add_constraints'' \<and>
   map_of (projr (super_kwargs ''top'' [] :: error + unit kwargs)) ''script_after_bitstream'' \<noteq>
     map_of (projr (super_kwargs ''blinky'' [(''strategy'', Str ''fast'' :: unit pyval)]))
       ''script_after_bitstream''\<close>
proof -
  have k1: "super_kwargs ''top'' [] = Inr (projr (super_kwargs ''top'' [] :: error + unit kwargs))"
    by (simp add: super_kwargs_def overrides_eq)
  have k2: "super_kwargs ''blinky'' [(''strategy'', Str ''fast'' :: unit pyval)] =
      Inr (projr (super_kwargs ''blinky'' [(''strategy'', Str ''fast'' :: unit pyval)]))"
    by (simp add: super_kwargs_def overrides_eq)
  have names: "''top'' \<noteq> ''blinky''" by simp
  have e1: \<open>super_kwargs ''top'' [] =
     Inr [(''script_before_bitstream'',
             Str ''set_property BITSTREAM.CONFIG.SPI_BUSWIDTH 4 [current_design]''),
          (''script_after_bitstream'',
             Str ''write_cfgmem -force -format bin -interface spix4 -size 16 -loadbit "up 0x0 top.bit" -file top.bin''),
          (''add_constraints'',
             Str (nl @
               ''                set_property CFGBVS VCCO [current_design]'' @ nl @
               ''                set_property CONFIG_VOLTAGE 3.3 [current_design]'' @ nl @
               ''                '') :: unit pyval)]\<close>
    by (simp add: super_kwargs_def overrides_eq)
  have e2: \<open>super_kwargs ''blinky'' [(''strategy'', Str ''fast'')] =
     Inr [(''script_before_bitstream'',
             Str ''set_property BITSTREAM.CONFIG.SPI_BUSWIDTH 4 [current_design]''),
          (''script_after_bitstream'',
             Str ''write_cfgmem -force -format bin -interface spix4 -size 16 -loadbit "up 0x0 blinky.bit" -file blinky.bin''),
          (''add_constraints'',
             Str (nl @
               ''                set_property CFGBVS VCCO [current_design]'' @ nl @
               ''                set_property CONFIG_VOLTAGE 3.3 [current_design]'' @ nl @
               ''                '')),
          (''strategy'', Str ''fast'' :: unit pyval)]\<close>
    by (simp add: super_kwargs_def overrides_eq)
  from fixed_override_texts [OF k1 k2] names e1 e2 show ?thesis
    by (simp only: simp_thms)
qed

text \<open>
  C3, as the code has it. When a keyword argument of the caller's has one of the three
  fixed names, the call of the inherited step is not made: collecting \<open>**overrides\<close> and
  \<open>**kwargs\<close> into one call raises TypeError for a keyword given twice (one of the
  caller's), and the platform stays as it was.
\<close>

theorem toolchain_prepare_fixed_key_raises:
  assumes "k \<in> {''script_before_bitstream'', ''script_after_bitstream'', ''add_constraints''}"
    and "k \<in> set (map fst kwargs)"
  shows "\<exists>k'. k' \<in> set (map fst kwargs) \<and>
     toolchain_prepare super_prepare self fragment name kwargs = (Inl (TypeError k'), self)"
proof -
  obtain ov :: "'a kwargs" where ov: "overrides name = Inr ov"
    using overrides_eq by blast
  from overrides_keys [OF ov] assms(1) have "k \<in> set (map fst ov)" by auto
  from kwargs_update_clash [OF this assms(2)] obtain k' where
    "k' \<in> set (map fst kwargs)" "kwargs_update ov kwargs = Inl (TypeError k')" by blast
  with ov show ?thesis
    by (auto simp: toolchain_prepare_def super_kwargs_def)
qed

theorem toolchain_prepare_fixed_key_raises_witness:
  "''add_constraints'' \<in> {''script_before_bitstream'', ''script_after_bitstream'', ''add_constraints''} \<and>
   ''add_constraints'' \<in> set (map fst [(''add_constraints'', Str ''x'' :: unit pyval)]) \<and>
   toolchain_prepare super_echo (NumatoNesoPlatform spi_flash_one) () ''top''
       [(''add_constraints'', Str ''x'' :: unit pyval)]
     = (Inl (TypeError ''add_constraints''), NumatoNesoPlatform spi_flash_one)"
  using toolchain_prepare_fixed_key_raises
    [of "''add_constraints''" "[(''add_constraints'', Str ''x'' :: unit pyval)]"
        super_echo "NumatoNesoPlatform spi_flash_one" "()" "''top''"]
  by simp

text \<open>
  C3, as claimed (the caller's value superseded and the inherited step called), fails:
  with \<open>add_constraints\<close> given by the caller, the method ends in TypeError.
\<close>

theorem caller_override_not_superseded:
  "fst (toolchain_prepare super_echo (NumatoNesoPlatform spi_flash_one) () ''top''
       [(''add_constraints'', Str ''x'' :: unit pyval)])
     = Inl (TypeError ''add_constraints'')"
  unfolding toolchain_prepare_def super_kwargs_def overrides_eq by simp

text \<open>
  C8. For every platform, fragment, design name and keyword arguments, the platform after
  \<open>toolchain_prepare\<close> is the platform before it (so its device, package, speed, default
  clock and reset names, resources and connectors are), provided the inherited step,
  which belongs to the framework, leaves the platform as it finds it: the method itself
  writes nothing.
\<close>

theorem toolchain_prepare_frame:
  assumes "\<forall>s f n kw. snd (super_prepare s f n kw) = s"
  shows "snd (toolchain_prepare super_prepare self fragment name kwargs) = self"
  using assms
  by (simp add: toolchain_prepare_def split: sum.splits)

theorem toolchain_prepare_frame_witness:
  "(\<forall>s f n kw. snd (super_echo s (f :: unit) n (kw :: unit kwargs)) = s) \<and>
   snd (toolchain_prepare super_echo (NumatoNesoPlatform spi_flash_one) () ''top''
          [(''strategy'', Str ''fast'' :: unit pyval)]) = NumatoNesoPlatform spi_flash_one"
  using toolchain_prepare_frame
    [of super_echo "NumatoNesoPlatform spi_flash_one" "()" "''top''"
        "[(''strategy'', Str ''fast'' :: unit pyval)]"]
  by (simp add: super_echo_def)

subsection \<open>The tables\<close>

text \<open>
  C2, evaluated on the tables. The pins of the descriptor are not pairwise distinct,
  whatever the SPI flash helper returns: the connector \<open>ftdi\<close> lists J18 twice (for
  \<open>d7\<close> and for \<open>siwub\<close>), and F18, which it lists for \<open>d4\<close>, is also the
  \<open>hold_n\<close> pin handed to the SPI flash helper.
\<close>

theorem pins_not_unique:
  "count_list (connector_pins conn_ftdi) ''J18'' = 2 \<and>
   ''F18'' \<in> set (connector_pins conn_ftdi) \<and> sf_hold_n spi_flash_call = ''F18'' \<and>
   \<not> distinct (platform_pins (NumatoNesoPlatform spi))"
proof -
  have "\<not> distinct (connector_pins conn_ftdi)"
    by (simp add: conn_ftdi_def)
  then have "\<not> distinct (platform_pins (NumatoNesoPlatform spi))"
    by (simp add: platform_pins_def NumatoNesoPlatform_def)
  moreover have "count_list (connector_pins conn_ftdi) ''J18'' = 2"
    by (simp add: conn_ftdi_def)
  moreover have "''F18'' \<in> set (connector_pins conn_ftdi)"
    by (simp add: conn_ftdi_def)
  moreover have "sf_hold_n spi_flash_call = ''F18''"
    by (simp add: spi_flash_call_def)
  ultimately show ?thesis by blast
qed

text \<open>
  C6, evaluated on the tables. The default clock name \<open>clk100\<close> names a resource of the
  table. The resources of the table are \<open>clk100\<close>, \<open>ddr3\<close> and those the SPI flash
  helper returns; the default reset name \<open>rst\<close> is neither of the two the module
  declares.
\<close>

theorem default_rst_not_declared:
  "default_clk (NumatoNesoPlatform spi) \<in> set (map res_name (resources (NumatoNesoPlatform spi))) \<and>
   map res_name (resources (NumatoNesoPlatform spi)) =
     [''clk100'', ''ddr3''] @ map res_name (spi spi_flash_call) \<and>
   default_rst (NumatoNesoPlatform spi) \<notin> set [''clk100'', ''ddr3'']"
  by (simp add: NumatoNesoPlatform_def clk100_def ddr3_def)

text \<open>
  C7. No two connectors share name and index, and no two resources do, given that the
  resources the SPI flash helper returns have pairwise different pairs of name and index,
  none of them \<open>clk100\<close> 0 or \<open>ddr3\<close> 0.
\<close>

theorem name_index_unique:
  assumes "distinct (map res_key (spi spi_flash_call))"
    and "(''clk100'', 0) \<notin> set (map res_key (spi spi_flash_call))"
    and "(''ddr3'', 0) \<notin> set (map res_key (spi spi_flash_call))"
  shows "distinct (map res_key (resources (NumatoNesoPlatform spi))) \<and>
         distinct (map conn_key (connectors (NumatoNesoPlatform spi)))"
  using assms
  by (simp add: NumatoNesoPlatform_def clk100_def ddr3_def conn_p4_def conn_p5_def conn_ftdi_def)

theorem name_index_unique_witness:
  "distinct (map res_key (spi_flash_one spi_flash_call)) \<and>
   (''clk100'', 0) \<notin> set (map res_key (spi_flash_one spi_flash_call)) \<and>
   (''ddr3'', 0) \<notin> set (map res_key (spi_flash_one spi_flash_call)) \<and>
   distinct (map res_key (resources (NumatoNesoPlatform spi_flash_one))) \<and>
   distinct (map conn_key (connectors (NumatoNesoPlatform spi_flash_one)))"
  using name_index_unique [of spi_flash_one]
  by (simp add: spi_flash_one_def spi_flash_call_def)

text \<open>
  C10. The \<open>ddr3\<close> resource of the table has 16 pins in \<open>dq\<close>, 2 in \<open>dm\<close>, 2
  differential pairs in \<open>dqs\<close>, 14 pins in \<open>a\<close> and 3 in \<open>ba\<close>.
\<close>

theorem ddr3_widths:
  "ddr3 \<in> set (resources (NumatoNesoPlatform spi)) \<and>
   subsignal_width ddr3 ''dq'' = Some 16 \<and>
   subsignal_width ddr3 ''dm'' = Some 2 \<and>
   subsignal_width ddr3 ''dqs'' = Some 2 \<and>
   subsignal_width ddr3 ''a'' = Some 14 \<and>
   subsignal_width ddr3 ''ba'' = Some 3"
proof -
  have "ddr3 \<in> set (resources (NumatoNesoPlatform spi))"
    by (simp add: NumatoNesoPlatform_def)
  moreover have "subsignal_width ddr3 ''dq'' = Some 16"
    by (simp add: subsignal_width_def ddr3_def str_split_def isspace_def)
  moreover have "subsignal_width ddr3 ''dm'' = Some 2"
    by (simp add: subsignal_width_def ddr3_def str_split_def isspace_def)
  moreover have "subsignal_width ddr3 ''dqs'' = Some 2"
    by (simp add: subsignal_width_def ddr3_def str_split_def isspace_def)
  moreover have "subsignal_width ddr3 ''a'' = Some 14"
    by (simp add: subsignal_width_def ddr3_def str_split_def isspace_def)
  moreover have "subsignal_width ddr3 ''ba'' = Some 3"
    by (simp add: subsignal_width_def ddr3_def str_split_def isspace_def)
  ultimately show ?thesis by blast
qed

subsection \<open>The script entry point\<close>

text \<open>
  C4, as the code has it. Run as \<open>__main__\<close>, the module calls the framework's
  \<open>build\<close> on a new \<open>NumatoNesoPlatform\<close> with the design \<open>Blinky\<close> and no keyword
  argument: \<open>do_program\<close> is not passed.
\<close>

theorem module_main_build:
  "module_main spi ''__main__'' =
     Some \<lparr>build_platform = NumatoNesoPlatform spi, build_elaboratable = Blinky,
           build_kwargs = []\<rparr> \<and>
   \<not> do_program_set (module_main spi ''__main__'' :: 'a build_call option)"
  by (simp add: module_main_def do_program_set_def)

text \<open>C4, as claimed (the flag to program the device set), fails.\<close>

theorem module_main_no_do_program:
  "\<not> do_program_set (module_main spi_flash_one ''__main__'' :: unit build_call option)"
  by (simp add: module_main_def do_program_set_def)

end
